theory Spec2Isabelle
  imports
    Complex_Main
    "HOL-Library.Char_ord"
    "HOL-Library.List_Lexorder"
    "HOL-Library.Multiset"
    "HOL-Library.Sublist"
    "HOL-Library.AList"
begin

section \<open>JavaScript numbers\<close>

text \<open>
  A JavaScript number is an IEEE double. The finite ones are modelled as reals, so
  rounding and the sign of zero are not modelled; \<open>NaN\<close> and the two infinities are kept,
  because \<open>statistics.max\<close> starts at \<open>-Infinity\<close> and \<open>Math.max\<close> propagates \<open>NaN\<close>.
\<close>

datatype jsnum = NaN | NegInf | Fin real | PosInf

text \<open>The operator \<open>+\<close> on numbers.\<close>

fun num_add :: "jsnum \<Rightarrow> jsnum \<Rightarrow> jsnum" where
  "num_add NaN y = NaN"
| "num_add x NaN = NaN"
| "num_add (Fin x) (Fin y) = Fin (x + y)"
| "num_add PosInf NegInf = NaN"
| "num_add NegInf PosInf = NaN"
| "num_add PosInf y = PosInf"
| "num_add x PosInf = PosInf"
| "num_add NegInf y = NegInf"
| "num_add x NegInf = NegInf"

text \<open>The operator \<open>*\<close> on numbers: an infinity times zero is \<open>NaN\<close>.\<close>

definition num_sign :: "jsnum \<Rightarrow> int" where
  "num_sign x = (case x of NaN \<Rightarrow> 0 | NegInf \<Rightarrow> - 1 | PosInf \<Rightarrow> 1
     | Fin v \<Rightarrow> (if v < 0 then - 1 else if v = 0 then 0 else 1))"

fun num_mul :: "jsnum \<Rightarrow> jsnum \<Rightarrow> jsnum" where
  "num_mul NaN y = NaN"
| "num_mul x NaN = NaN"
| "num_mul (Fin x) (Fin y) = Fin (x * y)"
| "num_mul x y =
     (if num_sign x * num_sign y = 0 then NaN
      else if num_sign x * num_sign y < 0 then NegInf else PosInf)"

text \<open>The comparison \<open>x < y\<close> on numbers: false as soon as one side is \<open>NaN\<close>.\<close>

fun num_less :: "jsnum \<Rightarrow> jsnum \<Rightarrow> bool" where
  "num_less NaN y = False"
| "num_less x NaN = False"
| "num_less (Fin x) (Fin y) = (x < y)"
| "num_less x NegInf = False"
| "num_less NegInf y = True"
| "num_less PosInf y = False"
| "num_less x PosInf = True"

text \<open>
  \<open>Math.max(x1, ..., xn)\<close>: \<open>-Infinity\<close> without arguments, \<open>NaN\<close> as soon as one argument
  is \<open>NaN\<close>, the largest argument otherwise.
\<close>

definition max2 :: "jsnum \<Rightarrow> jsnum \<Rightarrow> jsnum" where
  "max2 x y = (if x = NaN \<or> y = NaN then NaN else if num_less x y then y else x)"

definition Math_max :: "jsnum list \<Rightarrow> jsnum" where
  "Math_max xs = foldl max2 NegInf xs"

definition Math_floor :: "jsnum \<Rightarrow> jsnum" where
  "Math_floor x = (case x of Fin v \<Rightarrow> Fin (of_int \<lfloor>v\<rfloor>) | _ \<Rightarrow> x)"

section \<open>Values, features and expressions\<close>

text \<open>The \<open>Color\<close> class of the style specification: four channels \<open>r\<close>, \<open>g\<close>, \<open>b\<close>, \<open>a\<close>.\<close>

datatype Color = RGBA (Color_r: jsnum) (Color_g: jsnum) (Color_b: jsnum) (Color_a: jsnum)

text \<open>
  The values that reach the binders: a number, a \<open>Color\<close> object, or the object
  \<open>{kind: 'constant', value: v}\<close> that \<open>createDynamic\<close> hands to a \<open>ConstantBinder\<close>.
\<close>

datatype jsval = Number jsnum | ColorValue Color | ConstantObject jsval

text \<open>\<open>ToNumber\<close>, as \<open>Math.max\<close> and the WebGL calls apply it: an object gives \<open>NaN\<close>.\<close>

definition ToNumber :: "jsval \<Rightarrow> jsnum" where
  "ToNumber v = (case v of Number n \<Rightarrow> n | _ \<Rightarrow> NaN)"

text \<open>
  Reading a channel \<open>v.r\<close> and using it as a number: on a value that is not a \<open>Color\<close> the
  property is \<open>undefined\<close>, which arithmetic and WebGL turn into \<open>NaN\<close>.
\<close>

definition get_r :: "jsval \<Rightarrow> jsnum" where
  "get_r v = (case v of ColorValue c \<Rightarrow> Color_r c | _ \<Rightarrow> NaN)"

definition get_g :: "jsval \<Rightarrow> jsnum" where
  "get_g v = (case v of ColorValue c \<Rightarrow> Color_g c | _ \<Rightarrow> NaN)"

definition get_b :: "jsval \<Rightarrow> jsnum" where
  "get_b v = (case v of ColorValue c \<Rightarrow> Color_b c | _ \<Rightarrow> NaN)"

definition get_a :: "jsval \<Rightarrow> jsnum" where
  "get_a v = (case v of ColorValue c \<Rightarrow> Color_a c | _ \<Rightarrow> NaN)"

text \<open>A vector tile feature, seen through its properties; the object \<open>{zoom: z}\<close>.\<close>

type_synonym Feature = "(string \<times> jsval) list"

record GlobalProperties =
  globals_zoom :: jsnum

text \<open>
  The expression evaluator is an external collaborator: an expression is the pair of
  functions the binders call on it.
\<close>

record SourceExpression =
  evaluate :: "GlobalProperties \<Rightarrow> Feature \<Rightarrow> jsval"

record CompositeExpression = SourceExpression +
  interpolationFactor :: "jsnum \<Rightarrow> jsnum \<Rightarrow> jsnum \<Rightarrow> jsnum"

text \<open>\<open>PossiblyEvaluatedValue\<close>: the three kinds \<open>constant\<close>, \<open>source\<close>, \<open>composite\<close>.\<close>

datatype PossiblyEvaluatedValue =
  ConstantKind jsval
| SourceKind SourceExpression
| CompositeKind CompositeExpression

text \<open>
  Modelled from the spec: \<open>PossiblyEvaluatedPropertyValue.constantOr\<close> (style/properties
  is not among the sources) gives the value of a constant kind and the fallback otherwise.
\<close>

definition constantOr :: "PossiblyEvaluatedValue \<Rightarrow> jsval \<Rightarrow> jsval" where
  "constantOr currentValue fallback =
     (case currentValue of ConstantKind v \<Rightarrow> v | _ \<Rightarrow> fallback)"

section \<open>The color packer\<close>

text \<open>
  Modelled from the spec: \<open>packUint8ToFloat\<close> (shaders/encode_attribute is not among the
  sources) packs two 8-bit channels into one value, \<open>value = channelA*256 + channelB\<close>.
\<close>

definition packUint8ToFloat :: "jsnum \<Rightarrow> jsnum \<Rightarrow> jsnum" where
  "packUint8ToFloat a b = num_add (num_mul (Fin 256) a) b"

definition packColor :: "jsval \<Rightarrow> jsnum \<times> jsnum" where
  "packColor color =
     (packUint8ToFloat (num_mul (Fin 255) (get_r color)) (num_mul (Fin 255) (get_g color)),
      packUint8ToFloat (num_mul (Fin 255) (get_b color)) (num_mul (Fin 255) (get_a color)))"

text \<open>
  The decoding the spec describes, following its words: the integer decomposition of a
  packed value, \<open>channelA = value div 256\<close> and \<open>channelB = value mod 256\<close>.
\<close>

definition unpack_spec :: "jsnum \<Rightarrow> (int \<times> int) option" where
  "unpack_spec p = (case p of Fin v \<Rightarrow> Some (\<lfloor>v\<rfloor> div 256, \<lfloor>v\<rfloor> mod 256) | _ \<Rightarrow> None)"

section \<open>Vertex arrays and the GPU context\<close>

text \<open>
  Modelled from the spec: the dynamic array container (util/struct_array is not among the
  sources). An array is the list of the argument tuples given to \<open>emplaceBack\<close>, its
  \<open>length\<close> the number of tuples; \<open>reserve\<close> changes the capacity only.
\<close>

type_synonym StructArray = "jsval list list"

definition emplaceBack :: "StructArray \<Rightarrow> jsval list \<Rightarrow> StructArray" where
  "emplaceBack arr entry = arr @ [entry]"

definition reserve :: "StructArray \<Rightarrow> nat \<Rightarrow> StructArray" where
  "reserve arr n = arr"

record StructArrayMember =
  member_name :: string
  member_type :: string
  components :: nat
  offset :: nat

datatype StructArrayClass = StructArrayClass string

text \<open>\<open>new PaintVertexArray()\<close>: an empty array, whatever the layout class.\<close>

definition new_StructArray :: "StructArrayClass \<Rightarrow> StructArray" where
  "new_StructArray layout = []"

text \<open>
  Modelled from the spec: the GPU context (gl/context is not among the sources), as the
  log of the calls made on it: \<open>createVertexBuffer\<close>, \<open>bufferHandle.destroy()\<close> and the
  uniform writes. A uniform location is \<open>None\<close> when \<open>program.uniforms\<close> has no such key.
\<close>

datatype VertexBuffer = VertexBuffer nat

datatype gl_call =
  CreateVertexBuffer nat StructArray "StructArrayMember list"
| DestroyVertexBuffer nat
| Uniform1f "nat option" jsnum
| Uniform4f "nat option" jsnum jsnum jsnum jsnum

record Context =
  gl_calls :: "gl_call list"

record Program =
  uniforms :: "string \<Rightarrow> nat option"

definition createVertexBuffer ::
  "Context \<Rightarrow> StructArray \<Rightarrow> StructArrayMember list \<Rightarrow> VertexBuffer \<times> Context" where
  "createVertexBuffer ctx arr attributes =
     (let handle = length (gl_calls ctx)
      in (VertexBuffer handle,
          ctx\<lparr>gl_calls := gl_calls ctx @ [CreateVertexBuffer handle arr attributes]\<rparr>))"

definition VertexBuffer_destroy :: "Context \<Rightarrow> VertexBuffer \<Rightarrow> Context" where
  "VertexBuffer_destroy ctx buffer =
     (case buffer of VertexBuffer handle \<Rightarrow>
        ctx\<lparr>gl_calls := gl_calls ctx @ [DestroyVertexBuffer handle]\<rparr>)"

definition uniform1f :: "Context \<Rightarrow> nat option \<Rightarrow> jsnum \<Rightarrow> Context" where
  "uniform1f ctx location x =
     ctx\<lparr>gl_calls := gl_calls ctx @ [Uniform1f location x]\<rparr>"

definition uniform4f ::
  "Context \<Rightarrow> nat option \<Rightarrow> jsnum \<Rightarrow> jsnum \<Rightarrow> jsnum \<Rightarrow> jsnum \<Rightarrow> Context" where
  "uniform4f ctx location x y z w =
     ctx\<lparr>gl_calls := gl_calls ctx @ [Uniform4f location x y z w]\<rparr>"

text \<open>
  The guard \<open>if (this.paintVertexArray)\<close> of \<open>upload\<close>: the member is declared
  \<open>paintVertexArray: StructArray\<close> and assigned by the constructor, and an object reference
  is truthy whatever the length of the array.
\<close>

definition truthy_object :: "StructArray \<Rightarrow> bool" where
  "truthy_object arr = True"

section \<open>The binders\<close>

text \<open>
  The three classes of binders share \<open>names\<close>, \<open>type\<close> and \<open>statistics\<close>; the two expression
  binders share the paint vertex members as well. \<open>statistics_max\<close> is \<open>statistics.max\<close>.
\<close>

record Binder_fields =
  names :: "string list"
  type :: string
  statistics_max :: jsnum

record ConstantBinder = Binder_fields +
  constant_value :: jsval

record 'e PaintBinder = Binder_fields +
  expression :: 'e
  paintVertexArray :: StructArray
  paintVertexAttributes :: "StructArrayMember list"
  paintVertexBuffer :: "VertexBuffer option"

type_synonym SourceExpressionBinder = "SourceExpression PaintBinder"

record CompositeExpressionBinder = "CompositeExpression PaintBinder" +
  useIntegerZoom :: bool
  zoom :: jsnum

text \<open>\<open>name.match(/pattern/)\<close>: the name contains the text \<open>pattern\<close>.\<close>

fun js_includes :: "string \<Rightarrow> string \<Rightarrow> bool" where
  "js_includes pat [] = (pat = [])"
| "js_includes pat (c # cs) = (prefix pat (c # cs) \<or> js_includes pat cs)"

definition match_pattern :: "string \<Rightarrow> bool" where
  "match_pattern name = js_includes ''pattern'' name"

text \<open>
  The loop \<open>for (let i = start; i < length; i++) paintArray.emplaceBack(...)\<close>, on natural
  numbers as vertex counts are; \<open>len\<close> is the parameter \<open>length\<close>.
\<close>

function emplace_loop :: "nat \<Rightarrow> nat \<Rightarrow> jsval list \<Rightarrow> StructArray \<Rightarrow> StructArray" where
  "emplace_loop i len entry paintArray =
     (if i < len then emplace_loop (Suc i) len entry (emplaceBack paintArray entry)
      else paintArray)"
  by pat_completeness auto
termination
  by (relation "measure (\<lambda>(i, len, entry, paintArray). len - i)") auto

declare emplace_loop.simps [simp del]

subsection \<open>ConstantBinder\<close>

definition new_ConstantBinder :: "jsval \<Rightarrow> string list \<Rightarrow> string \<Rightarrow> ConstantBinder" where
  "new_ConstantBinder v ns ty =
     \<lparr>names = ns, type = ty, statistics_max = NegInf, constant_value = v\<rparr>"

definition ConstantBinder_defines :: "ConstantBinder \<Rightarrow> string list" where
  "ConstantBinder_defines this = map (\<lambda>name. ''#define HAS_UNIFORM_u_'' @ name) (names this)"

definition ConstantBinder_populatePaintArray ::
  "nat \<Rightarrow> Feature \<Rightarrow> ConstantBinder \<Rightarrow> ConstantBinder" where
  "ConstantBinder_populatePaintArray len feature this = this"

definition ConstantBinder_upload :: "Context \<Rightarrow> ConstantBinder \<Rightarrow> Context \<times> ConstantBinder" where
  "ConstantBinder_upload ctx this = (ctx, this)"

definition ConstantBinder_destroy :: "Context \<Rightarrow> ConstantBinder \<Rightarrow> Context" where
  "ConstantBinder_destroy ctx this = ctx"

definition ConstantBinder_setUniforms ::
  "Context \<Rightarrow> Program \<Rightarrow> GlobalProperties \<Rightarrow> PossiblyEvaluatedValue \<Rightarrow> ConstantBinder
   \<Rightarrow> Context" where
  "ConstantBinder_setUniforms ctx program globals currentValue this =
     (let v = constantOr currentValue (constant_value this)
      in foldl (\<lambda>gl name.
           if type this = ''color''
           then uniform4f gl (uniforms program (''u_'' @ name)) (get_r v) (get_g v) (get_b v) (get_a v)
           else uniform1f gl (uniforms program (''u_'' @ name)) (ToNumber v))
         ctx (names this))"

subsection \<open>SourceExpressionBinder\<close>

definition new_SourceExpressionBinder ::
  "SourceExpression \<Rightarrow> string list \<Rightarrow> string \<Rightarrow> StructArrayClass \<Rightarrow> SourceExpressionBinder" where
  "new_SourceExpressionBinder e ns ty layout =
     \<lparr>names = ns, type = ty, statistics_max = NegInf,
      expression = e,
      paintVertexArray = new_StructArray layout,
      paintVertexAttributes =
        map (\<lambda>(i, name).
          \<lparr>member_name = ''a_'' @ name, member_type = ''Float32'',
           components = (if ty = ''color'' \<or> match_pattern name then 2 else 1),
           offset = (if match_pattern name then i * 8 else 0)\<rparr>) (enumerate 0 ns),
      paintVertexBuffer = None\<rparr>"

definition SourceExpressionBinder_defines :: "SourceExpressionBinder \<Rightarrow> string list" where
  "SourceExpressionBinder_defines this = []"

definition SourceExpressionBinder_populatePaintArray ::
  "nat \<Rightarrow> Feature \<Rightarrow> SourceExpressionBinder \<Rightarrow> SourceExpressionBinder" where
  "SourceExpressionBinder_populatePaintArray len feature this =
     (let paintArray = paintVertexArray this;
          start = length paintArray;
          paintArray = reserve paintArray len;
          v = evaluate (expression this) \<lparr>globals_zoom = Fin 0\<rparr> feature
      in if type this = ''color''
         then (let color = packColor v
               in this\<lparr>paintVertexArray :=
                    emplace_loop start len [Number (fst color), Number (snd color)] paintArray\<rparr>)
         else this\<lparr>paintVertexArray := emplace_loop start len [v] paintArray,
                   statistics_max := Math_max [statistics_max this, ToNumber v]\<rparr>)"

definition SourceExpressionBinder_upload ::
  "Context \<Rightarrow> SourceExpressionBinder \<Rightarrow> Context \<times> SourceExpressionBinder" where
  "SourceExpressionBinder_upload ctx this =
     (if truthy_object (paintVertexArray this)
      then (let (buffer, ctx') =
                  createVertexBuffer ctx (paintVertexArray this) (paintVertexAttributes this)
            in (ctx', this\<lparr>paintVertexBuffer := Some buffer\<rparr>))
      else (ctx, this))"

definition SourceExpressionBinder_destroy :: "Context \<Rightarrow> SourceExpressionBinder \<Rightarrow> Context" where
  "SourceExpressionBinder_destroy ctx this =
     (case paintVertexBuffer this of
        Some buffer \<Rightarrow> VertexBuffer_destroy ctx buffer
      | None \<Rightarrow> ctx)"

text \<open>\<open>this.names[0]\<close> inside a template literal: \<open>undefined\<close> prints as such.\<close>

definition names0 :: "string list \<Rightarrow> string" where
  "names0 ns = (case ns of [] \<Rightarrow> ''undefined'' | n # rest \<Rightarrow> n)"

definition SourceExpressionBinder_setUniforms ::
  "Context \<Rightarrow> Program \<Rightarrow> SourceExpressionBinder \<Rightarrow> Context" where
  "SourceExpressionBinder_setUniforms ctx program this =
     uniform1f ctx (uniforms program (''a_'' @ names0 (names this) @ ''_t'')) (Fin 0)"

subsection \<open>CompositeExpressionBinder\<close>

definition new_CompositeExpressionBinder ::
  "CompositeExpression \<Rightarrow> string list \<Rightarrow> string \<Rightarrow> bool \<Rightarrow> jsnum \<Rightarrow> StructArrayClass
   \<Rightarrow> CompositeExpressionBinder" where
  "new_CompositeExpressionBinder e ns ty useInt z layout =
     \<lparr>names = ns, type = ty, statistics_max = NegInf,
      expression = e,
      paintVertexArray = new_StructArray layout,
      paintVertexAttributes =
        map (\<lambda>name.
          \<lparr>member_name = ''a_'' @ name, member_type = ''Float32'',
           components = (if ty = ''color'' then 4 else 2),
           offset = 0\<rparr>) ns,
      paintVertexBuffer = None,
      useIntegerZoom = useInt, zoom = z\<rparr>"

definition CompositeExpressionBinder_defines :: "CompositeExpressionBinder \<Rightarrow> string list" where
  "CompositeExpressionBinder_defines this = []"

definition CompositeExpressionBinder_populatePaintArray ::
  "nat \<Rightarrow> Feature \<Rightarrow> CompositeExpressionBinder \<Rightarrow> CompositeExpressionBinder" where
  "CompositeExpressionBinder_populatePaintArray len feature this =
     (let paintArray = paintVertexArray this;
          start = length paintArray;
          paintArray = reserve paintArray len;
          min_v = evaluate (expression this) \<lparr>globals_zoom = zoom this\<rparr> feature;
          max_v = evaluate (expression this) \<lparr>globals_zoom = num_add (zoom this) (Fin 1)\<rparr> feature
      in if type this = ''color''
         then (let minColor = packColor min_v;
                   maxColor = packColor max_v
               in this\<lparr>paintVertexArray :=
                    emplace_loop start len
                      [Number (fst minColor), Number (snd minColor),
                       Number (fst maxColor), Number (snd maxColor)] paintArray\<rparr>)
         else this\<lparr>paintVertexArray := emplace_loop start len [min_v, max_v] paintArray,
                   statistics_max :=
                     Math_max [statistics_max this, ToNumber min_v, ToNumber max_v]\<rparr>)"

definition CompositeExpressionBinder_upload ::
  "Context \<Rightarrow> CompositeExpressionBinder \<Rightarrow> Context \<times> CompositeExpressionBinder" where
  "CompositeExpressionBinder_upload ctx this =
     (if truthy_object (paintVertexArray this)
      then (let (buffer, ctx') =
                  createVertexBuffer ctx (paintVertexArray this) (paintVertexAttributes this)
            in (ctx', this\<lparr>paintVertexBuffer := Some buffer\<rparr>))
      else (ctx, this))"

definition CompositeExpressionBinder_destroy ::
  "Context \<Rightarrow> CompositeExpressionBinder \<Rightarrow> Context" where
  "CompositeExpressionBinder_destroy ctx this =
     (case paintVertexBuffer this of
        Some buffer \<Rightarrow> VertexBuffer_destroy ctx buffer
      | None \<Rightarrow> ctx)"

definition CompositeExpressionBinder_interpolationFactor ::
  "CompositeExpressionBinder \<Rightarrow> jsnum \<Rightarrow> jsnum" where
  "CompositeExpressionBinder_interpolationFactor this currentZoom =
     (if useIntegerZoom this
      then interpolationFactor (expression this) (Math_floor currentZoom)
             (zoom this) (num_add (zoom this) (Fin 1))
      else interpolationFactor (expression this) currentZoom
             (zoom this) (num_add (zoom this) (Fin 1)))"

definition CompositeExpressionBinder_setUniforms ::
  "Context \<Rightarrow> Program \<Rightarrow> GlobalProperties \<Rightarrow> CompositeExpressionBinder \<Rightarrow> Context" where
  "CompositeExpressionBinder_setUniforms ctx program globals this =
     uniform1f ctx (uniforms program (''a_'' @ names0 (names this) @ ''_t''))
       (CompositeExpressionBinder_interpolationFactor this (globals_zoom globals))"

subsection \<open>The interface of the binders\<close>

datatype Binder =
  ConstantB ConstantBinder
| SourceB SourceExpressionBinder
| CompositeB CompositeExpressionBinder

definition Binder_populatePaintArray :: "nat \<Rightarrow> Feature \<Rightarrow> Binder \<Rightarrow> Binder" where
  "Binder_populatePaintArray len feature bnd =
     (case bnd of
        ConstantB c \<Rightarrow> ConstantB (ConstantBinder_populatePaintArray len feature c)
      | SourceB s \<Rightarrow> SourceB (SourceExpressionBinder_populatePaintArray len feature s)
      | CompositeB z \<Rightarrow> CompositeB (CompositeExpressionBinder_populatePaintArray len feature z))"

definition Binder_upload :: "Context \<Rightarrow> Binder \<Rightarrow> Context \<times> Binder" where
  "Binder_upload ctx bnd =
     (case bnd of
        ConstantB c \<Rightarrow> (let (ctx', c') = ConstantBinder_upload ctx c in (ctx', ConstantB c'))
      | SourceB s \<Rightarrow>
          (let (ctx', s') = SourceExpressionBinder_upload ctx s in (ctx', SourceB s'))
      | CompositeB z \<Rightarrow>
          (let (ctx', z') = CompositeExpressionBinder_upload ctx z
           in (ctx', CompositeB z')))"

definition Binder_destroy :: "Context \<Rightarrow> Binder \<Rightarrow> Context" where
  "Binder_destroy ctx bnd =
     (case bnd of
        ConstantB c \<Rightarrow> ConstantBinder_destroy ctx c
      | SourceB s \<Rightarrow> SourceExpressionBinder_destroy ctx s
      | CompositeB z \<Rightarrow> CompositeExpressionBinder_destroy ctx z)"

definition Binder_defines :: "Binder \<Rightarrow> string list" where
  "Binder_defines bnd =
     (case bnd of
        ConstantB c \<Rightarrow> ConstantBinder_defines c
      | SourceB s \<Rightarrow> SourceExpressionBinder_defines s
      | CompositeB z \<Rightarrow> CompositeExpressionBinder_defines z)"

definition Binder_setUniforms ::
  "Context \<Rightarrow> Program \<Rightarrow> GlobalProperties \<Rightarrow> PossiblyEvaluatedValue \<Rightarrow> Binder \<Rightarrow> Context" where
  "Binder_setUniforms ctx program globals currentValue bnd =
     (case bnd of
        ConstantB c \<Rightarrow> ConstantBinder_setUniforms ctx program globals currentValue c
      | SourceB s \<Rightarrow> SourceExpressionBinder_setUniforms ctx program s
      | CompositeB z \<Rightarrow> CompositeExpressionBinder_setUniforms ctx program globals z)"

definition Binder_statistics_max :: "Binder \<Rightarrow> jsnum" where
  "Binder_statistics_max bnd =
     (case bnd of
        ConstantB c \<Rightarrow> statistics_max c
      | SourceB s \<Rightarrow> statistics_max s
      | CompositeB z \<Rightarrow> statistics_max z)"

definition Binder_type :: "Binder \<Rightarrow> string" where
  "Binder_type bnd =
     (case bnd of ConstantB c \<Rightarrow> type c | SourceB s \<Rightarrow> type s | CompositeB z \<Rightarrow> type z)"

definition Binder_paintVertexBuffer :: "Binder \<Rightarrow> VertexBuffer option" where
  "Binder_paintVertexBuffer bnd =
     (case bnd of
        ConstantB c \<Rightarrow> None
      | SourceB s \<Rightarrow> paintVertexBuffer s
      | CompositeB z \<Rightarrow> paintVertexBuffer z)"

text \<open>
  The calls of the \<open>Binder\<close> interface that can change an object or the GPU context, and a
  sequence of them run on one object.
\<close>

datatype BinderOp =
  PopulatePaintArray nat Feature
| Upload
| Destroy
| SetUniforms Program GlobalProperties PossiblyEvaluatedValue

definition is_populate :: "BinderOp \<Rightarrow> bool" where
  "is_populate op = (case op of PopulatePaintArray len feature \<Rightarrow> True | _ \<Rightarrow> False)"

definition Binder_call :: "BinderOp \<Rightarrow> Context \<times> Binder \<Rightarrow> Context \<times> Binder" where
  "Binder_call op st =
     (case op of
        PopulatePaintArray len feature \<Rightarrow> (fst st, Binder_populatePaintArray len feature (snd st))
      | Upload \<Rightarrow> Binder_upload (fst st) (snd st)
      | Destroy \<Rightarrow> (Binder_destroy (fst st) (snd st), snd st)
      | SetUniforms program globals currentValue \<Rightarrow>
          (Binder_setUniforms (fst st) program globals currentValue (snd st), snd st))"

definition Binder_calls :: "BinderOp list \<Rightarrow> Context \<times> Binder \<Rightarrow> Context \<times> Binder" where
  "Binder_calls ops st = foldl (\<lambda>s op. Binder_call op s) st ops"

section \<open>Identifiers of the module and the layout tables\<close>

text \<open>
  A reference to an identifier that the module neither declares nor imports raises a
  \<open>ReferenceError\<close>; reading a property of \<open>undefined\<close>, or \<open>new\<close> on it, raises a
  \<open>TypeError\<close>. A scope gives the layout classes bound to identifiers.
\<close>

datatype error = ReferenceError | TypeError

type_synonym scope = "string \<Rightarrow> StructArrayClass option"

text \<open>
  The layout classes the module binds: its only import from \<open>./array_types\<close> is
  \<open>{ StructArrayLayout1f4, StructArrayLayout2f8, StructArrayLayout4f16 }\<close>.
\<close>

definition module_scope :: scope where
  "module_scope = map_of
     [(''StructArrayLayout1f4'', StructArrayClass ''StructArrayLayout1f4''),
      (''StructArrayLayout2f8'', StructArrayClass ''StructArrayLayout2f8''),
      (''StructArrayLayout4f16'', StructArrayClass ''StructArrayLayout4f16'')]"

definition resolve :: "scope \<Rightarrow> string \<Rightarrow> error + StructArrayClass" where
  "resolve sc identifier =
     (case sc identifier of None \<Rightarrow> Inl ReferenceError | Some cls \<Rightarrow> Inr cls)"

definition and_then :: "error + 'a \<Rightarrow> ('a \<Rightarrow> error + 'b) \<Rightarrow> error + 'b" where
  "and_then r f = (case r of Inl e \<Rightarrow> Inl e | Inr x \<Rightarrow> f x)"

text \<open>
  \<open>getLayoutException\<close> builds its table on every call, which evaluates the two identifiers
  of the table before the lookup.
\<close>

definition getLayoutException ::
  "scope \<Rightarrow> string \<Rightarrow> error + (string \<times> StructArrayClass) list option" where
  "getLayoutException sc property =
     and_then (resolve sc ''LinePatternSourceExpressionLayoutArray'') (\<lambda>srce.
     and_then (resolve sc ''LinePatternCompositeExpressionLayoutArray'') (\<lambda>cmps.
       Inr (map_of [(''line-pattern'', [(''source'', srce), (''composite'', cmps)])] property)))"

text \<open>
  \<open>layoutType\<close>: the exception's layout for the kind of the caller when there is one, the default
  layout of the type otherwise; a type outside the default table is a read on \<open>undefined\<close>.
  The result is \<open>None\<close> when the row has no entry for that kind.
\<close>

definition layoutType ::
  "scope \<Rightarrow> string \<Rightarrow> string \<Rightarrow> string \<Rightarrow> error + StructArrayClass option" where
  "layoutType sc property ty binderType =
     and_then (resolve sc ''StructArrayLayout2f8'') (\<lambda>color_source.
     and_then (resolve sc ''StructArrayLayout4f16'') (\<lambda>color_composite.
     and_then (resolve sc ''StructArrayLayout1f4'') (\<lambda>number_source.
     and_then (resolve sc ''StructArrayLayout2f8'') (\<lambda>number_composite.
     (let defaultLayouts =
            [(''color'', [(''source'', color_source), (''composite'', color_composite)]),
             (''number'', [(''source'', number_source), (''composite'', number_composite)])]
      in and_then (getLayoutException sc property) (\<lambda>layoutException.
           (case (case layoutException of None \<Rightarrow> None | Some ex \<Rightarrow> map_of ex binderType) of
              Some cls \<Rightarrow> Inr (Some cls)
            | None \<Rightarrow>
                (case map_of defaultLayouts ty of
                   None \<Rightarrow> Inl TypeError
                 | Some row \<Rightarrow> Inr (map_of row binderType)))))))))"

text \<open>\<open>s.replace(pat, rep)\<close> with a string pattern: the first occurrence only.\<close>

fun replace_first :: "string \<Rightarrow> string \<Rightarrow> string \<Rightarrow> string" where
  "replace_first pat rep [] = (if pat = [] then rep else [])"
| "replace_first pat rep (c # cs) =
     (if prefix pat (c # cs) then rep @ drop (length pat) (c # cs)
      else c # replace_first pat rep cs)"

text \<open>\<open>s.replace(/-/g, '_')\<close>: every hyphen.\<close>

definition replace_hyphens :: "string \<Rightarrow> string" where
  "replace_hyphens s = map (\<lambda>c. if c = CHR ''-'' then CHR ''_'' else c) s"

definition paintAttributeName :: "string \<Rightarrow> string \<Rightarrow> string list" where
  "paintAttributeName property ty =
     (let attributeNameExceptions =
            [(''text-opacity'', [''opacity'']),
             (''icon-opacity'', [''opacity'']),
             (''text-color'', [''fill_color'']),
             (''icon-color'', [''fill_color'']),
             (''text-halo-color'', [''halo_color'']),
             (''icon-halo-color'', [''halo_color'']),
             (''text-halo-blur'', [''halo_blur'']),
             (''icon-halo-blur'', [''halo_blur'']),
             (''text-halo-width'', [''halo_width'']),
             (''icon-halo-width'', [''halo_width'']),
             (''line-gap-width'', [''gapwidth'']),
             (''line-pattern'', [''pattern_a'', ''pattern_b'', ''pattern_size''])]
      in case map_of attributeNameExceptions property of
           Some ns \<Rightarrow> ns
         | None \<Rightarrow> [replace_hyphens (replace_first (ty @ ''-'') [] property)])"

section \<open>ProgramConfiguration\<close>

text \<open>
  \<open>binders\<close> is an object keyed by property: an association list in insertion order, which
  is the order \<open>for ... in\<close> visits the keys (property names are not integer-like).
  \<open>buffers\<close> is the member \<open>_buffers\<close>.
\<close>

record ProgramConfiguration =
  binders :: "(string \<times> Binder) list"
  cacheKey :: string
  buffers :: "VertexBuffer list"

definition new_ProgramConfiguration :: ProgramConfiguration where
  "new_ProgramConfiguration = \<lparr>binders = [], cacheKey = [], buffers = []\<rparr>"

text \<open>
  What \<open>createDynamic\<close> reads of a layer: \<open>layer.type\<close> and, for each key of
  \<open>layer.paint._values\<close> in iteration order, what \<open>layer.paint.get\<close> returns: either a
  \<open>PossiblyEvaluatedPropertyValue\<close>, with the \<open>property-function\<close> flag and the \<open>type\<close> of
  its specification, its \<open>useIntegerZoom\<close> and its \<open>value\<close>, or some other value.
\<close>

record PossiblyEvaluatedPropertyValue =
  property_function :: bool
  specification_type :: string
  property_useIntegerZoom :: bool
  evaluated_value :: PossiblyEvaluatedValue

datatype PaintValue =
  OtherValue jsval
| Evaluated PossiblyEvaluatedPropertyValue

record Layer =
  layer_type :: string
  paint_values :: "(string \<times> PaintValue) list"

text \<open>One turn of the loop of \<open>createDynamic\<close>, on the configuration and the \<open>keys\<close> array.\<close>

definition createDynamic_step ::
  "scope \<Rightarrow> Layer \<Rightarrow> jsnum \<Rightarrow> (string \<Rightarrow> bool) \<Rightarrow> ProgramConfiguration \<times> string list
   \<Rightarrow> string \<times> PaintValue \<Rightarrow> error + ProgramConfiguration \<times> string list" where
  "createDynamic_step sc layer z filterProperties st entry =
     (let self = fst st; keys = snd st; property = fst entry
      in if \<not> filterProperties property then Inr (self, keys)
         else (case snd entry of
           OtherValue v \<Rightarrow> Inr (self, keys)
         | Evaluated pv \<Rightarrow>
             if \<not> property_function pv then Inr (self, keys)
             else
               (let ns = paintAttributeName property (layer_type layer);
                    ty = specification_type pv;
                    useInt = property_useIntegerZoom pv
                in case evaluated_value pv of
                     ConstantKind v \<Rightarrow>
                       Inr (self\<lparr>binders := AList.update property
                              (ConstantB (new_ConstantBinder (ConstantObject v) ns ty))
                              (binders self)\<rparr>,
                            keys @ [''/u_'' @ property])
                   | SourceKind e \<Rightarrow>
                       and_then (layoutType sc property ty ''source'') (\<lambda>structArrayLayout.
                         case structArrayLayout of
                           None \<Rightarrow> Inl TypeError
                         | Some cls \<Rightarrow>
                             Inr (self\<lparr>binders := AList.update property
                                    (SourceB (new_SourceExpressionBinder e ns ty cls))
                                    (binders self)\<rparr>,
                                  keys @ [''/a_'' @ property]))
                   | CompositeKind e \<Rightarrow>
                       and_then (layoutType sc property ty ''composite'') (\<lambda>structArrayLayout.
                         case structArrayLayout of
                           None \<Rightarrow> Inl TypeError
                         | Some cls \<Rightarrow>
                             Inr (self\<lparr>binders := AList.update property
                                    (CompositeB (new_CompositeExpressionBinder e ns ty useInt z cls))
                                    (binders self)\<rparr>,
                                  keys @ [''/z_'' @ property])))))"

fun createDynamic_loop ::
  "scope \<Rightarrow> Layer \<Rightarrow> jsnum \<Rightarrow> (string \<Rightarrow> bool) \<Rightarrow> (string \<times> PaintValue) list
   \<Rightarrow> ProgramConfiguration \<times> string list \<Rightarrow> error + ProgramConfiguration \<times> string list" where
  "createDynamic_loop sc layer z filterProperties [] st = Inr st"
| "createDynamic_loop sc layer z filterProperties (entry # rest) st =
     and_then (createDynamic_step sc layer z filterProperties st entry)
       (createDynamic_loop sc layer z filterProperties rest)"

text \<open>\<open>keys.sort().join('')\<close>: sorted by code units, then concatenated.\<close>

definition createDynamic ::
  "scope \<Rightarrow> Layer \<Rightarrow> jsnum \<Rightarrow> (string \<Rightarrow> bool) \<Rightarrow> error + ProgramConfiguration" where
  "createDynamic sc layer z filterProperties =
     and_then
       (createDynamic_loop sc layer z filterProperties (paint_values layer)
          (new_ProgramConfiguration, []))
       (\<lambda>st. Inr ((fst st)\<lparr>cacheKey := concat (sort (snd st))\<rparr>))"

text \<open>
  \<open>populatePaintArrays\<close>: the binders after the call, and the error that ended it if one was
  raised (the binders visited before the raise keep what was written to them).
\<close>

fun populatePaintArrays_loop ::
  "scope \<Rightarrow> nat \<Rightarrow> Feature \<Rightarrow> (string \<times> Binder) list \<Rightarrow> error option \<times> (string \<times> Binder) list" where
  "populatePaintArrays_loop sc len feature [] = (None, [])"
| "populatePaintArrays_loop sc len feature ((property, bnd) # rest) =
     (case getLayoutException sc property of
        Inl e \<Rightarrow> (Some e, (property, bnd) # rest)
      | Inr (Some layoutException) \<Rightarrow>
          (let r = populatePaintArrays_loop sc len feature rest
           in (fst r, (property, bnd) # snd r))
      | Inr None \<Rightarrow>
          (let r = populatePaintArrays_loop sc len feature rest
           in (fst r, (property, Binder_populatePaintArray len feature bnd) # snd r)))"

definition ProgramConfiguration_populatePaintArrays ::
  "scope \<Rightarrow> nat \<Rightarrow> Feature \<Rightarrow> ProgramConfiguration \<Rightarrow> error option \<times> ProgramConfiguration" where
  "ProgramConfiguration_populatePaintArrays sc len feature this =
     (let r = populatePaintArrays_loop sc len feature (binders this)
      in (fst r, this\<lparr>binders := snd r\<rparr>))"

definition ProgramConfiguration_defines :: "ProgramConfiguration \<Rightarrow> string list" where
  "ProgramConfiguration_defines this = concat (map (\<lambda>entry. Binder_defines (snd entry)) (binders this))"

definition ProgramConfiguration_setUniforms ::
  "Context \<Rightarrow> Program \<Rightarrow> (string \<Rightarrow> PossiblyEvaluatedValue) \<Rightarrow> GlobalProperties
   \<Rightarrow> ProgramConfiguration \<Rightarrow> Context" where
  "ProgramConfiguration_setUniforms ctx program properties globals this =
     foldl (\<lambda>gl entry.
        if match_pattern (fst entry) then gl
        else Binder_setUniforms gl program globals (properties (fst entry)) (snd entry))
       ctx (binders this)"

fun upload_loop ::
  "Context \<Rightarrow> (string \<times> Binder) list \<Rightarrow> Context \<times> (string \<times> Binder) list" where
  "upload_loop ctx [] = (ctx, [])"
| "upload_loop ctx ((property, bnd) # rest) =
     (let (ctx', bnd') = Binder_upload ctx bnd;
          (ctx'', rest') = upload_loop ctx' rest
      in (ctx'', (property, bnd') # rest'))"

definition ProgramConfiguration_upload :: "Context \<Rightarrow> ProgramConfiguration \<Rightarrow> Context \<times> ProgramConfiguration" where
  "ProgramConfiguration_upload ctx this =
     (let (ctx', bs) = upload_loop ctx (binders this)
      in (ctx',
          this\<lparr>binders := bs,
               buffers := List.map_filter (\<lambda>entry. Binder_paintVertexBuffer (snd entry)) bs\<rparr>))"

definition ProgramConfiguration_destroy :: "Context \<Rightarrow> ProgramConfiguration \<Rightarrow> Context" where
  "ProgramConfiguration_destroy ctx this =
     foldl (\<lambda>gl entry. Binder_destroy gl (snd entry)) ctx (binders this)"

text \<open>
  No member but \<open>upload\<close> assigns \<open>paintVertexBuffer\<close>: a configuration on which \<open>upload\<close>
  was never called is one none of whose binders has a buffer.
\<close>

definition never_uploaded :: "ProgramConfiguration \<Rightarrow> bool" where
  "never_uploaded this = list_all (\<lambda>entry. Binder_paintVertexBuffer (snd entry) = None) (binders this)"

definition is_constant :: "Binder \<Rightarrow> bool" where
  "is_constant bnd = (case bnd of ConstantB c \<Rightarrow> True | _ \<Rightarrow> False)"

section \<open>The cache key as the specification words it\<close>

text \<open>
  Following the words of the specification: one token per accepted data-driven property,
  \<open>/u_<property>\<close> for the constant kind, \<open>/a_<property>\<close> for the source kind and
  \<open>/z_<property>\<close> for the composite kind; no token for a property that is filtered out,
  is not a \<open>PossiblyEvaluatedPropertyValue\<close> or has no \<open>property-function\<close>.
\<close>

definition cacheKey_token :: "(string \<Rightarrow> bool) \<Rightarrow> string \<times> PaintValue \<Rightarrow> string list" where
  "cacheKey_token filterProperties entry =
     (if \<not> filterProperties (fst entry) then []
      else case snd entry of
        OtherValue v \<Rightarrow> []
      | Evaluated pv \<Rightarrow>
          if \<not> property_function pv then []
          else (case evaluated_value pv of
                  ConstantKind v \<Rightarrow> [''/u_'' @ fst entry]
                | SourceKind e \<Rightarrow> [''/a_'' @ fst entry]
                | CompositeKind e \<Rightarrow> [''/z_'' @ fst entry]))"

section \<open>Example inputs\<close>

definition example_expression :: SourceExpression where
  "example_expression = \<lparr>evaluate = (\<lambda>globals feature. Number (Fin 7))\<rparr>"

definition example_composite_expression :: CompositeExpression where
  "example_composite_expression =
     \<lparr>evaluate = (\<lambda>globals feature. ColorValue (RGBA (Fin 1) (Fin 0) (Fin 0) (Fin 1))),
      interpolationFactor = (\<lambda>input lower upper. Fin 0)\<rparr>"

definition example_context :: Context where
  "example_context = \<lparr>gl_calls = []\<rparr>"

definition example_source_binder :: SourceExpressionBinder where
  "example_source_binder =
     new_SourceExpressionBinder example_expression [''opacity''] ''number''
       (StructArrayClass ''StructArrayLayout1f4'')"

definition example_constant_binder :: ConstantBinder where
  "example_constant_binder =
     new_ConstantBinder (ConstantObject (Number (Fin 1))) [''opacity''] ''number''"

definition accept_all :: "string \<Rightarrow> bool" where
  "accept_all property = True"

text \<open>A fill layer whose only paint property is a constant \<open>fill-opacity\<close>.\<close>

definition example_constant_layer :: Layer where
  "example_constant_layer =
     \<lparr>layer_type = ''fill'',
      paint_values =
        [(''fill-opacity'',
          Evaluated \<lparr>property_function = True, specification_type = ''number'',
                     property_useIntegerZoom = False,
                     evaluated_value = ConstantKind (Number (Fin 1))\<rparr>)]\<rparr>"

definition example_configuration :: ProgramConfiguration where
  "example_configuration =
     \<lparr>binders = [(''fill-opacity'', ConstantB example_constant_binder)],
      cacheKey = ''/u_fill-opacity'', buffers = []\<rparr>"

text \<open>
  The layer of the specification's example: a constant numeric property \<open>opacity\<close> and a
  composite color property \<open>fill-color\<close>.
\<close>

definition example_layer :: Layer where
  "example_layer =
     \<lparr>layer_type = ''fill'',
      paint_values =
        [(''opacity'',
          Evaluated \<lparr>property_function = True, specification_type = ''number'',
                     property_useIntegerZoom = False,
                     evaluated_value = ConstantKind (Number (Fin 1))\<rparr>),
         (''fill-color'',
          Evaluated \<lparr>property_function = True, specification_type = ''color'',
                     property_useIntegerZoom = False,
                     evaluated_value = CompositeKind example_composite_expression\<rparr>)]\<rparr>"

text \<open>A configuration with a populated source kind, never uploaded.\<close>

definition example_populated_configuration :: ProgramConfiguration where
  "example_populated_configuration =
     \<lparr>binders =
        [(''fill-opacity'', SourceB (SourceExpressionBinder_populatePaintArray 2 [] example_source_binder)),
         (''fill-color'', ConstantB example_constant_binder)],
      cacheKey = ''/a_fill-opacity/u_fill-color'', buffers = []\<rparr>"

text \<open>
  The scope the module would have, had it imported the two line pattern layouts as well:
  used to tell what the module does apart from the two unbound identifiers.
\<close>

definition scope_with_line_pattern :: scope where
  "scope_with_line_pattern =
     module_scope
       (''LinePatternSourceExpressionLayoutArray'' \<mapsto>
          StructArrayClass ''LinePatternSourceExpressionLayoutArray'',
        ''LinePatternCompositeExpressionLayoutArray'' \<mapsto>
          StructArrayClass ''LinePatternCompositeExpressionLayoutArray'')"

section \<open>Properties of the number model and of the loop\<close>

lemma Math_max_pair:
  "Math_max [x, y] = (if x = NaN \<or> y = NaN then NaN else if num_less x y then y else x)"
  by (cases x; cases y) (simp_all add: Math_max_def max2_def)

text \<open>The loop appends one copy of the entry for each index from \<open>i\<close> up to \<open>len\<close>.\<close>

lemma emplace_loop_replicate:
  "emplace_loop i len entry paintArray = paintArray @ replicate (len - i) entry"
proof (induction i len entry paintArray rule: emplace_loop.induct)
  case (1 i len entry paintArray)
  show ?case
  proof (cases "i < len")
    case True
    then have step: "emplace_loop i len entry paintArray =
        emplace_loop (Suc i) len entry (emplaceBack paintArray entry)"
      by (subst emplace_loop.simps) simp
    from True have "len - i = Suc (len - Suc i)" by simp
    then have "replicate (len - i) entry = entry # replicate (len - Suc i) entry" by simp
    with True step "1" show ?thesis
      by (simp add: emplaceBack_def)
  next
    case False
    then show ?thesis by (subst emplace_loop.simps) simp
  qed
qed

section \<open>The unbound identifiers of \<open>getLayoutException\<close>\<close>

text \<open>
  Neither \<open>LinePatternSourceExpressionLayoutArray\<close> nor
  \<open>LinePatternCompositeExpressionLayoutArray\<close> is imported or declared in the module, so
  every call of \<open>getLayoutException\<close>, and with it every call of \<open>layoutType\<close>, raises.
\<close>

lemma getLayoutException_module_scope:
  "getLayoutException module_scope property = Inl ReferenceError"
  by (simp add: getLayoutException_def resolve_def module_scope_def and_then_def)

lemma layoutType_module_scope: "layoutType module_scope property ty kind = Inl ReferenceError"
  by (simp add: layoutType_def resolve_def module_scope_def and_then_def getLayoutException_def)

lemma populatePaintArrays_module_scope:
  "ProgramConfiguration_populatePaintArrays module_scope len feature this =
     (if binders this = [] then None else Some ReferenceError, this)"
proof (cases "binders this")
  case Nil
  then show ?thesis by (simp add: ProgramConfiguration_populatePaintArrays_def)
next
  case (Cons entry rest)
  then show ?thesis
    by (cases entry)
       (simp add: ProgramConfiguration_populatePaintArrays_def getLayoutException_module_scope)
qed

text \<open>
  With both identifiers bound, \<open>populatePaintArrays\<close> raises nothing and forwards to every
  property but \<open>line-pattern\<close>.
\<close>

lemma populatePaintArrays_loop_bound:
  assumes "sc ''LinePatternSourceExpressionLayoutArray'' = Some srce"
    and "sc ''LinePatternCompositeExpressionLayoutArray'' = Some cmps"
  shows "populatePaintArrays_loop sc len feature bs =
     (None, map (\<lambda>entry. (fst entry,
        if fst entry = ''line-pattern'' then snd entry
        else Binder_populatePaintArray len feature (snd entry))) bs)"
proof (induction bs)
  case Nil
  show ?case by simp
next
  case (Cons entry bs)
  obtain property bnd where entry: "entry = (property, bnd)" by (cases entry)
  have "getLayoutException sc property =
      Inr (if property = ''line-pattern'' then Some [(''source'', srce), (''composite'', cmps)] else None)"
    using assms by (simp add: getLayoutException_def resolve_def and_then_def)
  with Cons entry show ?case by simp
qed

lemma populatePaintArrays_bound:
  "ProgramConfiguration_populatePaintArrays scope_with_line_pattern len feature this =
     (None, this\<lparr>binders := map (\<lambda>entry. (fst entry,
        if fst entry = ''line-pattern'' then snd entry
        else Binder_populatePaintArray len feature (snd entry))) (binders this)\<rparr>)"
  by (simp add: ProgramConfiguration_populatePaintArrays_def scope_with_line_pattern_def
      populatePaintArrays_loop_bound)

lemma paintAttributeName_fill_opacity: "paintAttributeName ''fill-opacity'' ''fill'' = [''opacity'']"
  by (simp add: paintAttributeName_def replace_hyphens_def)

text \<open>
  C1: \<open>populatePaintArrays\<close> is to call \<open>populatePaintArray\<close> on every property that is not
  \<open>line-pattern\<close> and to raise nothing. On the module as written it does not: for the
  configuration that \<open>createDynamic\<close> builds from a layer with one constant property, the
  call raises a \<open>ReferenceError\<close> at the first property and leaves the configuration as
  it was.
\<close>

theorem populatePaintArrays_raises_ReferenceError:
  "createDynamic module_scope example_constant_layer (Fin 10) accept_all = Inr example_configuration
   \<and> ProgramConfiguration_populatePaintArrays module_scope 3 [] example_configuration
       = (Some ReferenceError, example_configuration)"
  by (simp add: createDynamic_def createDynamic_step_def example_constant_layer_def accept_all_def
      example_configuration_def example_constant_binder_def new_ProgramConfiguration_def
      and_then_def paintAttributeName_fill_opacity
      ProgramConfiguration_populatePaintArrays_def getLayoutException_def resolve_def
      module_scope_def Let_def)

section \<open>CompositeExpressionBinder.populatePaintArray\<close>

text \<open>
  C2: \<open>populatePaintArray(len, feature)\<close> of a composite kind appends the same entry for
  every index from the array's length up to \<open>len\<close>. With \<open>min\<close> the expression at the
  reference zoom and \<open>max\<close> the expression at that zoom plus one, the entry is the pair
  \<open>(min, max)\<close> for a type other than \<open>color\<close>, and then \<open>statistics.max\<close> becomes
  \<open>Math.max(statistics.max, min, max)\<close>; for the type \<open>color\<close> the entry is the four
  numbers \<open>packColor(min)[0]\<close>, \<open>packColor(min)[1]\<close>, \<open>packColor(max)[0]\<close>,
  \<open>packColor(max)[1]\<close>, and \<open>statistics.max\<close> stays.
\<close>

theorem CompositeExpressionBinder_populatePaintArray_entries:
  "paintVertexArray (CompositeExpressionBinder_populatePaintArray len feature this)
     = paintVertexArray this @ replicate (len - length (paintVertexArray this))
         (if type this = ''color''
          then [Number (fst (packColor (evaluate (expression this) \<lparr>globals_zoom = zoom this\<rparr> feature))),
                Number (snd (packColor (evaluate (expression this) \<lparr>globals_zoom = zoom this\<rparr> feature))),
                Number (fst (packColor (evaluate (expression this)
                  \<lparr>globals_zoom = num_add (zoom this) (Fin 1)\<rparr> feature))),
                Number (snd (packColor (evaluate (expression this)
                  \<lparr>globals_zoom = num_add (zoom this) (Fin 1)\<rparr> feature)))]
          else [evaluate (expression this) \<lparr>globals_zoom = zoom this\<rparr> feature,
                evaluate (expression this) \<lparr>globals_zoom = num_add (zoom this) (Fin 1)\<rparr> feature])
   \<and> statistics_max (CompositeExpressionBinder_populatePaintArray len feature this)
     = (if type this = ''color'' then statistics_max this
        else Math_max [statistics_max this,
               ToNumber (evaluate (expression this) \<lparr>globals_zoom = zoom this\<rparr> feature),
               ToNumber (evaluate (expression this)
                 \<lparr>globals_zoom = num_add (zoom this) (Fin 1)\<rparr> feature)])"
  by (simp add: CompositeExpressionBinder_populatePaintArray_def Let_def reserve_def
      emplace_loop_replicate)

section \<open>SourceExpressionBinder.populatePaintArray\<close>

text \<open>
  C3: for a source kind whose type is not \<open>color\<close>, \<open>populatePaintArray(N, feature)\<close> on an
  empty array leaves exactly \<open>N\<close> entries, each the one value of the expression at zoom 0
  for the feature, and \<open>statistics.max\<close> is \<open>Math.max\<close> of its former value and that
  value.
\<close>

theorem SourceExpressionBinder_populatePaintArray_numeric:
  assumes "type this \<noteq> ''color''"
  shows "paintVertexArray
           (SourceExpressionBinder_populatePaintArray N feature (this\<lparr>paintVertexArray := []\<rparr>))
           = replicate N [evaluate (expression this) \<lparr>globals_zoom = Fin 0\<rparr> feature]
       \<and> statistics_max
           (SourceExpressionBinder_populatePaintArray N feature (this\<lparr>paintVertexArray := []\<rparr>))
           = Math_max [statistics_max this,
               ToNumber (evaluate (expression this) \<lparr>globals_zoom = Fin 0\<rparr> feature)]"
  using assms
  by (simp add: SourceExpressionBinder_populatePaintArray_def Let_def reserve_def
      emplace_loop_replicate)

theorem SourceExpressionBinder_populatePaintArray_numeric_witness:
  "type example_source_binder \<noteq> ''color''
   \<and> paintVertexArray (SourceExpressionBinder_populatePaintArray 3 []
        (example_source_binder\<lparr>paintVertexArray := []\<rparr>))
       = [[Number (Fin 7)], [Number (Fin 7)], [Number (Fin 7)]]
   \<and> statistics_max (SourceExpressionBinder_populatePaintArray 3 []
        (example_source_binder\<lparr>paintVertexArray := []\<rparr>)) = Fin 7"
  using SourceExpressionBinder_populatePaintArray_numeric [of example_source_binder 3 "[]"]
  by (simp add: example_source_binder_def new_SourceExpressionBinder_def example_expression_def
      Math_max_def max2_def ToNumber_def numeral_3_eq_3)

section \<open>The cache key of \<open>createDynamic\<close>\<close>

lemma createDynamic_step_keys:
  "createDynamic_step sc layer z f st entry = Inr st' \<Longrightarrow> snd st' = snd st @ cacheKey_token f entry"
  by (auto simp add: createDynamic_step_def Let_def and_then_def cacheKey_token_def
      split: if_splits PaintValue.splits PossiblyEvaluatedValue.splits sum.splits option.splits)

lemma createDynamic_loop_keys:
  "createDynamic_loop sc layer z f entries st = Inr st'
   \<Longrightarrow> snd st' = snd st @ concat (map (cacheKey_token f) entries)"
proof (induction entries arbitrary: st)
  case Nil
  then show ?case by simp
next
  case (Cons entry entries)
  then obtain st1 where s1: "createDynamic_step sc layer z f st entry = Inr st1"
    and l1: "createDynamic_loop sc layer z f entries st1 = Inr st'"
    by (auto simp add: and_then_def split: sum.splits)
  from Cons.IH [OF l1] createDynamic_step_keys [OF s1] show ?case by simp
qed

text \<open>Whenever \<open>createDynamic\<close> returns, the key is the sorted concatenation of the tokens.\<close>

lemma createDynamic_cacheKey:
  assumes "createDynamic sc layer z f = Inr p"
  shows "cacheKey p = concat (sort (concat (map (cacheKey_token f) (paint_values layer))))"
proof -
  from assms obtain st where
    l: "createDynamic_loop sc layer z f (paint_values layer) (new_ProgramConfiguration, []) = Inr st"
    and p: "p = (fst st)\<lparr>cacheKey := concat (sort (snd st))\<rparr>"
    by (auto simp add: createDynamic_def and_then_def split: sum.splits)
  from createDynamic_loop_keys [OF l] p show ?thesis by simp
qed

lemma mset_concat_map:
  "mset (concat (map g xs)) = (\<Sum>x\<in>#mset xs. mset (g x))"
  by (induction xs) simp_all

text \<open>Whenever \<open>createDynamic\<close> returns for two orders of the same properties, the keys agree.\<close>

lemma createDynamic_cacheKey_permutation:
  assumes "mset (paint_values layer1) = mset (paint_values layer2)"
    and "createDynamic sc layer1 z f = Inr p1"
    and "createDynamic sc layer2 z f = Inr p2"
  shows "cacheKey p1 = cacheKey p2"
proof -
  have "mset (concat (map (cacheKey_token f) (paint_values layer1)))
      = mset (concat (map (cacheKey_token f) (paint_values layer2)))"
    using assms(1) by (simp add: mset_concat_map)
  then have "sort (concat (map (cacheKey_token f) (paint_values layer1)))
      = sort (concat (map (cacheKey_token f) (paint_values layer2)))"
    by (metis properties_for_sort sorted_sort mset_sort)
  with createDynamic_cacheKey [OF assms(2)] createDynamic_cacheKey [OF assms(3)]
  show ?thesis by simp
qed

text \<open>With both identifiers bound, the example of the specification gets the key it states.\<close>

lemma createDynamic_example_bound:
  "map_sum id cacheKey (createDynamic scope_with_line_pattern example_layer (Fin 10) accept_all)
     = Inr ''/u_opacity/z_fill-color''"
  by (simp add: createDynamic_def createDynamic_step_def example_layer_def accept_all_def
      and_then_def layoutType_def getLayoutException_def resolve_def scope_with_line_pattern_def
      module_scope_def new_ProgramConfiguration_def Let_def)

text \<open>
  On the module as written, a layer with an accepted property of source or composite kind
  gets no configuration at all.
\<close>

lemma createDynamic_step_module_scope_error:
  "createDynamic_step module_scope layer z f st entry = Inl e \<Longrightarrow> e = ReferenceError"
  by (auto simp add: createDynamic_step_def Let_def and_then_def layoutType_module_scope
      split: if_splits PaintValue.splits PossiblyEvaluatedValue.splits)

lemma createDynamic_step_module_scope_raises:
  "cacheKey_token f entry = [''/a_'' @ fst entry] \<or> cacheKey_token f entry = [''/z_'' @ fst entry]
   \<Longrightarrow> createDynamic_step module_scope layer z f st entry = Inl ReferenceError"
  by (auto simp add: createDynamic_step_def Let_def and_then_def layoutType_module_scope
      cacheKey_token_def
      split: if_splits PaintValue.splits PossiblyEvaluatedValue.splits)

lemma createDynamic_loop_module_scope_raises:
  "list_ex (\<lambda>entry. cacheKey_token f entry = [''/a_'' @ fst entry]
                  \<or> cacheKey_token f entry = [''/z_'' @ fst entry]) entries
   \<Longrightarrow> createDynamic_loop module_scope layer z f entries st = Inl ReferenceError"
proof (induction entries arbitrary: st)
  case Nil
  then show ?case by simp
next
  case (Cons entry entries)
  show ?case
  proof (cases "createDynamic_step module_scope layer z f st entry")
    case (Inl e)
    then have "e = ReferenceError" by (rule createDynamic_step_module_scope_error)
    with Inl show ?thesis by (simp add: and_then_def)
  next
    case (Inr st1)
    then have "\<not> (cacheKey_token f entry = [''/a_'' @ fst entry]
                 \<or> cacheKey_token f entry = [''/z_'' @ fst entry])"
      using createDynamic_step_module_scope_raises [of f entry layer z st] by auto
    with Cons.prems have "list_ex (\<lambda>entry. cacheKey_token f entry = [''/a_'' @ fst entry]
                  \<or> cacheKey_token f entry = [''/z_'' @ fst entry]) entries"
      by simp
    then have "createDynamic_loop module_scope layer z f entries st1 = Inl ReferenceError"
      by (rule Cons.IH)
    with Inr show ?thesis by (simp add: and_then_def)
  qed
qed

lemma createDynamic_module_scope_raises:
  "list_ex (\<lambda>entry. cacheKey_token f entry = [''/a_'' @ fst entry]
                  \<or> cacheKey_token f entry = [''/z_'' @ fst entry]) (paint_values layer)
   \<Longrightarrow> createDynamic module_scope layer z f = Inl ReferenceError"
  by (simp add: createDynamic_def createDynamic_loop_module_scope_raises and_then_def)

text \<open>
  C4: \<open>createDynamic\<close> is to give every layer the key made of the sorted tokens of its
  properties, \<open>/a_<property>\<close> and \<open>/z_<property>\<close> among them, whatever their order. On the
  module as written it does not: for the layer of the specification's example, a constant
  \<open>opacity\<close> and a composite \<open>fill-color\<close> at zoom 10, the call raises a \<open>ReferenceError\<close>
  and returns no key.
\<close>

theorem createDynamic_raises_ReferenceError:
  "createDynamic module_scope example_layer (Fin 10) accept_all = Inl ReferenceError"
  by (simp add: createDynamic_def createDynamic_step_def example_layer_def accept_all_def
      and_then_def layoutType_module_scope new_ProgramConfiguration_def Let_def)

section \<open>SourceExpressionBinder.upload\<close>

text \<open>
  C5, as amended: \<open>upload\<close> of a source kind creates a GPU vertex buffer from the paint
  vertex array on every call, whether or not the array holds any entry, and keeps its
  handle in \<open>paintVertexBuffer\<close>: the guard tests that the array object exists, not that
  it is non-empty.
\<close>

theorem SourceExpressionBinder_upload_always:
  "SourceExpressionBinder_upload ctx this =
     (ctx\<lparr>gl_calls := gl_calls ctx @
        [CreateVertexBuffer (length (gl_calls ctx)) (paintVertexArray this) (paintVertexAttributes this)]\<rparr>,
      this\<lparr>paintVertexBuffer := Some (VertexBuffer (length (gl_calls ctx)))\<rparr>)"
  by (simp add: SourceExpressionBinder_upload_def truthy_object_def createVertexBuffer_def Let_def)

text \<open>
  The claim as first stated fails on a fresh source kind: its array is empty, and \<open>upload\<close>
  creates a vertex buffer from it all the same.
\<close>

theorem upload_empty_array_counterexample:
  "paintVertexArray example_source_binder = []
   \<and> gl_calls (fst (SourceExpressionBinder_upload example_context example_source_binder))
       = [CreateVertexBuffer 0 []
            [\<lparr>member_name = ''a_opacity'', member_type = ''Float32'', components = 1, offset = 0\<rparr>]]
   \<and> paintVertexBuffer (snd (SourceExpressionBinder_upload example_context example_source_binder))
       = Some (VertexBuffer 0)"
  by (simp add: example_source_binder_def example_context_def new_SourceExpressionBinder_def
      new_StructArray_def SourceExpressionBinder_upload_def truthy_object_def
      createVertexBuffer_def Let_def match_pattern_def)

section \<open>packColor\<close>

lemma unpack_pack:
  assumes "kb \<le> 255"
  shows "unpack_spec (packUint8ToFloat (Fin (real ka)) (Fin (real kb))) = Some (int ka, int kb)"
proof -
  have "256 * real ka + real kb = real_of_int (256 * int ka + int kb)" by simp
  then have "\<lfloor>256 * real ka + real kb\<rfloor> = 256 * int ka + int kb"
    by (metis floor_of_int)
  with assms show ?thesis
    by (simp add: unpack_spec_def packUint8ToFloat_def)
qed

text \<open>
  C6: for a color whose channels are \<open>kr/255\<close>, \<open>kg/255\<close>, \<open>kb/255\<close>, \<open>ka/255\<close> with integers
  from 0 to 255, the integer decomposition of the two numbers of \<open>packColor\<close> gives back
  \<open>(kr, kg)\<close> and \<open>(kb, ka)\<close>.
\<close>

theorem packColor_roundtrip:
  assumes "kr \<le> 255" "kg \<le> 255" "kb \<le> 255" "ka \<le> 255"
  shows "unpack_spec (fst (packColor (ColorValue
            (RGBA (Fin (real kr / 255)) (Fin (real kg / 255)) (Fin (real kb / 255)) (Fin (real ka / 255))))))
           = Some (int kr, int kg)
       \<and> unpack_spec (snd (packColor (ColorValue
            (RGBA (Fin (real kr / 255)) (Fin (real kg / 255)) (Fin (real kb / 255)) (Fin (real ka / 255))))))
           = Some (int kb, int ka)"
  using assms
  by (simp add: packColor_def get_r_def get_g_def get_b_def get_a_def unpack_pack)

theorem packColor_roundtrip_witness:
  "(255::nat) \<le> 255 \<and> (0::nat) \<le> 255 \<and> (128::nat) \<le> 255 \<and> (64::nat) \<le> 255
   \<and> unpack_spec (fst (packColor (ColorValue
        (RGBA (Fin 1) (Fin 0) (Fin (128 / 255)) (Fin (64 / 255)))))) = Some (255, 0)
   \<and> unpack_spec (snd (packColor (ColorValue
        (RGBA (Fin 1) (Fin 0) (Fin (128 / 255)) (Fin (64 / 255)))))) = Some (128, 64)"
  using packColor_roundtrip [of 255 0 128 64]
  by simp

section \<open>CompositeExpressionBinder.interpolationFactor\<close>

text \<open>
  C7: with \<open>useIntegerZoom\<close> the factor is the evaluator's factor at the floor of the
  current zoom between the reference zoom and the reference zoom plus one, so at current
  zoom 14.7 and reference zoom 14 it is the factor at 14; without \<open>useIntegerZoom\<close> it is
  the factor at the current zoom itself.
\<close>

theorem interpolationFactor_zoom:
  "CompositeExpressionBinder_interpolationFactor (this\<lparr>useIntegerZoom := True\<rparr>) currentZoom
     = interpolationFactor (expression this) (Math_floor currentZoom)
         (zoom this) (num_add (zoom this) (Fin 1))
   \<and> CompositeExpressionBinder_interpolationFactor (this\<lparr>useIntegerZoom := False\<rparr>) currentZoom
     = interpolationFactor (expression this) currentZoom (zoom this) (num_add (zoom this) (Fin 1))
   \<and> CompositeExpressionBinder_interpolationFactor
        (this\<lparr>useIntegerZoom := True, zoom := Fin 14\<rparr>) (Fin (147 / 10))
     = interpolationFactor (expression this) (Fin 14) (Fin 14) (Fin 15)"
  by (simp add: CompositeExpressionBinder_interpolationFactor_def Math_floor_def)

section \<open>statistics.max\<close>

lemma Binder_call_type: "Binder_type (snd (Binder_call op (ctx, bnd))) = Binder_type bnd"
  by (cases op; cases bnd)
     (simp_all add: Binder_call_def Binder_type_def Binder_populatePaintArray_def Binder_upload_def
       ConstantBinder_populatePaintArray_def SourceExpressionBinder_populatePaintArray_def
       CompositeExpressionBinder_populatePaintArray_def ConstantBinder_upload_def
       SourceExpressionBinder_upload_def CompositeExpressionBinder_upload_def Let_def
       split: prod.splits)

lemma Binder_call_is_constant:
  "is_constant (snd (Binder_call op (ctx, bnd))) = is_constant bnd"
  by (cases op; cases bnd)
     (simp_all add: Binder_call_def is_constant_def Binder_populatePaintArray_def Binder_upload_def
       split: prod.splits)

lemma Binder_call_statistics:
  "is_constant bnd \<or> Binder_type bnd = ''color'' \<or> \<not> is_populate op
   \<Longrightarrow> Binder_statistics_max (snd (Binder_call op (ctx, bnd))) = Binder_statistics_max bnd"
  by (cases op; cases bnd)
     (auto simp add: Binder_call_def Binder_type_def is_constant_def is_populate_def
       Binder_statistics_max_def Binder_populatePaintArray_def Binder_upload_def
       ConstantBinder_populatePaintArray_def SourceExpressionBinder_populatePaintArray_def
       CompositeExpressionBinder_populatePaintArray_def ConstantBinder_upload_def
       SourceExpressionBinder_upload_def CompositeExpressionBinder_upload_def Let_def
       split: prod.splits)

lemma Binder_calls_statistics:
  "is_constant bnd \<or> Binder_type bnd = ''color'' \<or> list_all (\<lambda>op. \<not> is_populate op) ops
   \<Longrightarrow> Binder_statistics_max (snd (Binder_calls ops (ctx, bnd))) = Binder_statistics_max bnd"
proof (induction ops arbitrary: ctx bnd)
  case Nil
  then show ?case by (simp add: Binder_calls_def)
next
  case (Cons op ops)
  obtain ctx' bnd' where step: "Binder_call op (ctx, bnd) = (ctx', bnd')"
    by (cases "Binder_call op (ctx, bnd)")
  have ty: "Binder_type bnd' = Binder_type bnd"
    using Binder_call_type [of op ctx bnd] step by simp
  have co: "is_constant bnd' = is_constant bnd"
    using Binder_call_is_constant [of op ctx bnd] step by simp
  have st: "Binder_statistics_max bnd' = Binder_statistics_max bnd"
    using Binder_call_statistics [of bnd op ctx] step Cons.prems by auto
  have "is_constant bnd' \<or> Binder_type bnd' = ''color'' \<or> list_all (\<lambda>op. \<not> is_populate op) ops"
    using Cons.prems ty co by auto
  then have "Binder_statistics_max (snd (Binder_calls ops (ctx', bnd'))) = Binder_statistics_max bnd'"
    by (rule Cons.IH)
  with st step show ?case by (simp add: Binder_calls_def)
qed

text \<open>
  C8: \<open>statistics.max\<close> is \<open>-Infinity\<close> in a new object of each of the three classes; a call
  that changes it is a \<open>populatePaintArray\<close> on a source or composite kind whose type is not
  \<open>color\<close>; and over any sequence of calls it stays what it was on a constant kind, on a
  kind of type \<open>color\<close>, and when no call of the sequence is a \<open>populatePaintArray\<close>.
\<close>

theorem statistics_max_only_numeric_populate:
  "statistics_max (new_ConstantBinder v ns ty) = NegInf
   \<and> statistics_max (new_SourceExpressionBinder e ns ty layout) = NegInf
   \<and> statistics_max (new_CompositeExpressionBinder e' ns ty useInt z layout) = NegInf
   \<and> (Binder_statistics_max (snd (Binder_call op (ctx, bnd))) \<noteq> Binder_statistics_max bnd
        \<longrightarrow> is_populate op \<and> \<not> is_constant bnd \<and> Binder_type bnd \<noteq> ''color'')
   \<and> (is_constant bnd \<or> Binder_type bnd = ''color'' \<or> list_all (\<lambda>op. \<not> is_populate op) ops
        \<longrightarrow> Binder_statistics_max (snd (Binder_calls ops (ctx, bnd))) = Binder_statistics_max bnd)"
  using Binder_call_statistics [of bnd op ctx] Binder_calls_statistics [of bnd ops ctx]
  by (auto simp add: new_ConstantBinder_def new_SourceExpressionBinder_def
      new_CompositeExpressionBinder_def)

theorem statistics_max_only_numeric_populate_witness:
  "Binder_statistics_max
      (snd (Binder_call (PopulatePaintArray 2 []) (example_context, SourceB example_source_binder)))
     \<noteq> Binder_statistics_max (SourceB example_source_binder)
   \<and> is_populate (PopulatePaintArray 2 [])
   \<and> \<not> is_constant (SourceB example_source_binder)
   \<and> Binder_type (SourceB example_source_binder) \<noteq> ''color''
   \<and> is_constant (ConstantB example_constant_binder)
   \<and> Binder_statistics_max
        (snd (Binder_calls [PopulatePaintArray 2 [], Upload, Destroy]
               (example_context, ConstantB example_constant_binder))) = NegInf"
proof -
  have changed: "Binder_statistics_max
      (snd (Binder_call (PopulatePaintArray 2 []) (example_context, SourceB example_source_binder)))
     \<noteq> Binder_statistics_max (SourceB example_source_binder)"
    by (simp add: Binder_call_def Binder_populatePaintArray_def Binder_statistics_max_def
        SourceExpressionBinder_populatePaintArray_def example_source_binder_def
        new_SourceExpressionBinder_def example_expression_def Let_def Math_max_def max2_def
        ToNumber_def)
  have const: "is_constant (ConstantB example_constant_binder)"
    by (simp add: is_constant_def)
  have start: "Binder_statistics_max (ConstantB example_constant_binder) = NegInf"
    by (simp add: Binder_statistics_max_def example_constant_binder_def new_ConstantBinder_def)
  from changed const start
    statistics_max_only_numeric_populate
      [of _ _ _ _ _ _ _ _ "PopulatePaintArray 2 []" example_context "SourceB example_source_binder"]
    statistics_max_only_numeric_populate
      [of _ _ _ _ _ _ _ _ _ example_context "ConstantB example_constant_binder"
          "[PopulatePaintArray 2 [], Upload, Destroy]"]
  show ?thesis by simp
qed

section \<open>destroy before upload\<close>

text \<open>
  Only \<open>upload\<close> gives an object a buffer: what \<open>createDynamic\<close> returns has none, and
  \<open>populatePaintArray\<close> and \<open>populatePaintArrays\<close> create none.
\<close>

lemma list_all_update:
  "list_all P xs \<Longrightarrow> P (k, v) \<Longrightarrow> list_all P (AList.update k v xs)"
  by (induction xs) auto

lemma new_binders_no_buffer:
  "Binder_paintVertexBuffer (ConstantB c) = None"
  "Binder_paintVertexBuffer (SourceB (new_SourceExpressionBinder e ns ty cls)) = None"
  "Binder_paintVertexBuffer (CompositeB (new_CompositeExpressionBinder e' ns ty useInt z cls)) = None"
  by (simp_all add: Binder_paintVertexBuffer_def new_SourceExpressionBinder_def
      new_CompositeExpressionBinder_def)

lemma createDynamic_step_never_uploaded:
  "never_uploaded (fst st) \<Longrightarrow> createDynamic_step sc layer z f st entry = Inr st'
   \<Longrightarrow> never_uploaded (fst st')"
  by (auto simp add: createDynamic_step_def Let_def and_then_def never_uploaded_def
      list_all_update new_binders_no_buffer
      split: if_splits PaintValue.splits PossiblyEvaluatedValue.splits sum.splits option.splits)

lemma createDynamic_loop_never_uploaded:
  "never_uploaded (fst st) \<Longrightarrow> createDynamic_loop sc layer z f entries st = Inr st'
   \<Longrightarrow> never_uploaded (fst st')"
proof (induction entries arbitrary: st)
  case Nil
  then show ?case by simp
next
  case (Cons entry entries)
  from Cons.prems(2) obtain st1 where s1: "createDynamic_step sc layer z f st entry = Inr st1"
    and l1: "createDynamic_loop sc layer z f entries st1 = Inr st'"
    by (auto simp add: and_then_def split: sum.splits)
  from createDynamic_step_never_uploaded [OF Cons.prems(1) s1] l1 show ?case
    by (rule Cons.IH)
qed

lemma createDynamic_never_uploaded:
  assumes "createDynamic sc layer z f = Inr p"
  shows "never_uploaded p"
proof -
  from assms obtain st where
    l: "createDynamic_loop sc layer z f (paint_values layer) (new_ProgramConfiguration, []) = Inr st"
    and p: "p = (fst st)\<lparr>cacheKey := concat (sort (snd st))\<rparr>"
    by (auto simp add: createDynamic_def and_then_def split: sum.splits)
  have "never_uploaded (fst (new_ProgramConfiguration, []))"
    by (simp add: never_uploaded_def new_ProgramConfiguration_def)
  from createDynamic_loop_never_uploaded [OF this l] p show ?thesis
    by (simp add: never_uploaded_def)
qed

lemma Binder_populatePaintArray_buffer:
  "Binder_paintVertexBuffer (Binder_populatePaintArray len feature bnd) = Binder_paintVertexBuffer bnd"
  by (cases bnd)
     (simp_all add: Binder_paintVertexBuffer_def Binder_populatePaintArray_def
       SourceExpressionBinder_populatePaintArray_def CompositeExpressionBinder_populatePaintArray_def
       Let_def)

lemma populatePaintArrays_loop_no_buffer:
  "list_all (\<lambda>entry. Binder_paintVertexBuffer (snd entry) = None) bs
   \<Longrightarrow> list_all (\<lambda>entry. Binder_paintVertexBuffer (snd entry) = None)
         (snd (populatePaintArrays_loop sc len feature bs))"
proof (induction bs)
  case Nil
  then show ?case by simp
next
  case (Cons entry bs)
  obtain property bnd where entry: "entry = (property, bnd)" by (cases entry)
  with Cons show ?case
    by (auto simp add: Binder_populatePaintArray_buffer Let_def split: sum.splits option.splits)
qed

lemma populatePaintArrays_never_uploaded:
  "never_uploaded this
   \<Longrightarrow> never_uploaded (snd (ProgramConfiguration_populatePaintArrays sc len feature this))"
  by (simp add: never_uploaded_def ProgramConfiguration_populatePaintArrays_def Let_def
      populatePaintArrays_loop_no_buffer)

lemma destroy_foldl:
  "list_all (\<lambda>entry. Binder_paintVertexBuffer (snd entry) = None) bs
   \<Longrightarrow> foldl (\<lambda>gl entry. Binder_destroy gl (snd entry)) ctx bs = ctx"
proof (induction bs)
  case Nil
  then show ?case by simp
next
  case (Cons entry bs)
  then have "Binder_destroy ctx (snd entry) = ctx"
    by (cases "snd entry")
       (simp_all add: Binder_destroy_def Binder_paintVertexBuffer_def ConstantBinder_destroy_def
         SourceExpressionBinder_destroy_def CompositeExpressionBinder_destroy_def)
  with Cons show ?case by simp
qed

text \<open>
  C9: \<open>destroy\<close> on a configuration that was never uploaded makes no call on the GPU
  context, so it destroys no buffer, and no path of it raises; the \<open>destroy\<close> of each
  object releases its vertex buffer exactly when it has one.
\<close>

theorem destroy_before_upload:
  "(never_uploaded this \<longrightarrow> ProgramConfiguration_destroy ctx this = ctx)
   \<and> Binder_destroy ctx bnd =
       (case Binder_paintVertexBuffer bnd of
          None \<Rightarrow> ctx
        | Some buffer \<Rightarrow> VertexBuffer_destroy ctx buffer)"
proof -
  have "Binder_destroy ctx bnd =
       (case Binder_paintVertexBuffer bnd of
          None \<Rightarrow> ctx
        | Some buffer \<Rightarrow> VertexBuffer_destroy ctx buffer)"
    by (cases bnd)
       (simp_all add: Binder_destroy_def Binder_paintVertexBuffer_def ConstantBinder_destroy_def
         SourceExpressionBinder_destroy_def CompositeExpressionBinder_destroy_def)
  then show ?thesis
    by (simp add: never_uploaded_def ProgramConfiguration_destroy_def destroy_foldl)
qed

theorem destroy_before_upload_witness:
  "never_uploaded example_populated_configuration
   \<and> ProgramConfiguration_destroy example_context example_populated_configuration = example_context"
proof -
  have "never_uploaded example_populated_configuration"
    by (simp add: never_uploaded_def example_populated_configuration_def
        Binder_paintVertexBuffer_def SourceExpressionBinder_populatePaintArray_def Let_def
        example_source_binder_def new_SourceExpressionBinder_def)
  with destroy_before_upload [of example_populated_configuration example_context]
  show ?thesis by simp
qed

section \<open>setUniforms of the expression kinds\<close>

text \<open>
  C10: \<open>setUniforms\<close> of a source kind and of a composite kind makes exactly one call on
  the GPU context, a scalar uniform write at \<open>a_<n>_t\<close> for the first name \<open>n\<close> alone,
  whatever names follow it: of 0 for a source kind, of \<open>interpolationFactor(globals.zoom)\<close>
  for a composite kind.
\<close>

theorem setUniforms_single_write:
  "SourceExpressionBinder_setUniforms ctx program (this\<lparr>names := n # ns\<rparr>)
     = ctx\<lparr>gl_calls := gl_calls ctx @ [Uniform1f (uniforms program (''a_'' @ n @ ''_t'')) (Fin 0)]\<rparr>
   \<and> CompositeExpressionBinder_setUniforms ctx program globals (that\<lparr>names := n # ns\<rparr>)
     = ctx\<lparr>gl_calls := gl_calls ctx @
         [Uniform1f (uniforms program (''a_'' @ n @ ''_t''))
            (CompositeExpressionBinder_interpolationFactor that (globals_zoom globals))]\<rparr>"
  by (simp add: SourceExpressionBinder_setUniforms_def CompositeExpressionBinder_setUniforms_def
      uniform1f_def names0_def CompositeExpressionBinder_interpolationFactor_def)

end
